theory Spec2Isabelle
  imports Main "HOL-Library.Word"
begin

section \<open>Values\<close>

text \<open>
  The client of \<^verbatim>\<open>src/blurit.common.ts\<close> is TypeScript, so its types are erased when it
  runs: the Session is whatever the last login or refresh response held, and a response
  body is whatever the transport deserialized. Values are therefore modelled untyped.
\<close>

type_synonym bytes = "8 word list"

text \<open>A \<^verbatim>\<open>Blob\<close>: its payload and its \<^verbatim>\<open>type\<close> (the MIME type it was built with).\<close>

record blob =
  blob_bytes :: bytes
  blob_type :: string

text \<open>
  A value the library reads or stores: a deserialized response body, the Session, a JSON
  request body. \<open>Obj\<close> lists an object's own properties, one entry per key.
  \<open>ErrorV\<close> is an instance of \<^verbatim>\<open>Error\<close> with its message, \<open>StreamV\<close> a readable stream.
  Numbers are integers here: the library never computes with a number of a body.
\<close>

datatype jsval =
    Undefined
  | Null
  | Bool bool
  | Num int
  | Str string
  | Arr "jsval list"
  | Obj "(string \<times> jsval) list"
  | ArrayBufferV bytes
  | BlobV blob
  | StreamV bytes
  | ErrorV string

text \<open>A response of the transport, as far as the library reads it.\<close>

record response =
  status :: int
  statusText :: string
  data :: jsval

text \<open>
  What can be thrown: the generic \<^verbatim>\<open>Error\<close> with its message, a \<^verbatim>\<open>TypeError\<close>, a failure
  of the network or of the filesystem, and the \<^verbatim>\<open>AxiosError\<close> with which axios rejects a
  response, which carries its message and that response.
\<close>

datatype error =
    Error string
  | TypeError string
  | TransportError string
  | FsError string
  | AxiosError string response

type_synonym result = "error + jsval"

subsection \<open>String conversion\<close>

fun show_nat :: "nat \<Rightarrow> string" where
  "show_nat n = (if n < 10 then [''0123456789'' ! n]
                 else show_nat (n div 10) @ [''0123456789'' ! (n mod 10)])"

declare show_nat.simps [simp del]

definition show_int :: "int \<Rightarrow> string" where
  "show_int i = (if i < 0 then ''-'' @ show_nat (nat (- i)) else show_nat (nat i))"

fun join :: "string \<Rightarrow> string list \<Rightarrow> string" where
  "join sep [] = []"
| "join sep [s] = s"
| "join sep (s # t # ss) = s @ sep @ join sep (t # ss)"

text \<open>
  \<^verbatim>\<open>`${v}`\<close>: the string a template literal makes of a value. An array joins its
  elements with commas, an absent or null element giving the empty string.
\<close>

fun to_string :: "jsval \<Rightarrow> string" where
  "to_string Undefined = ''undefined''"
| "to_string Null = ''null''"
| "to_string (Bool b) = (if b then ''true'' else ''false'')"
| "to_string (Num n) = show_int n"
| "to_string (Str s) = s"
| "to_string (Arr vs) =
     join '','' (map (\<lambda>v. if v = Undefined \<or> v = Null then [] else to_string v) vs)"
| "to_string (Obj ps) = ''[object Object]''"
| "to_string (ArrayBufferV b) = ''[object ArrayBuffer]''"
| "to_string (BlobV b) = ''[object Blob]''"
| "to_string (StreamV b) = ''[object Object]''"
| "to_string (ErrorV m) = (if m = [] then ''Error'' else ''Error: '' @ m)"

text \<open>
  \<^verbatim>\<open>v.name\<close>, for the two names the library reads off the Session (\<^verbatim>\<open>token\<close> and
  \<^verbatim>\<open>refreshToken\<close>, neither an inherited property of any value): reading a property of
  \<^verbatim>\<open>undefined\<close> or \<^verbatim>\<open>null\<close> throws a TypeError, an object gives the property or
  \<^verbatim>\<open>undefined\<close>, every other value gives \<^verbatim>\<open>undefined\<close>.
\<close>

fun get_prop :: "jsval \<Rightarrow> string \<Rightarrow> error + jsval" where
  "get_prop Undefined name = Inl (TypeError name)"
| "get_prop Null name = Inl (TypeError name)"
| "get_prop (Obj ps) name = Inr (case map_of ps name of None \<Rightarrow> Undefined | Some v \<Rightarrow> v)"
| "get_prop v name = Inr Undefined"

text \<open>\<^verbatim>\<open>v instanceof Error\<close>.\<close>

fun instanceof_Error :: "jsval \<Rightarrow> bool" where
  "instanceof_Error (ErrorV m) = True"
| "instanceof_Error v = False"

section \<open>Multipart forms\<close>

text \<open>
  A \<^verbatim>\<open>FormData\<close> is the list of its entries in the order they were appended. An entry
  holds a string, or a file: a blob with the filename it travels under.
\<close>

datatype fd_value = FdString string | FdFile blob string

type_synonym formdata = "(string \<times> fd_value) list"

section \<open>Request configurations\<close>

text \<open>
  An \<^verbatim>\<open>AxiosRequestConfig\<close> is an object read by field name: a map from field names to
  values, a value being plain data, a multipart form, or a function on status codes as
  \<^verbatim>\<open>validateStatus\<close> takes one. The spread \<^verbatim>\<open>{...a, ...b}\<close> is \<open>a ++ b\<close>: the later
  object wins.
\<close>

datatype cval = J jsval | Form formdata | Validator "int \<Rightarrow> bool"

type_synonym config = "string \<rightharpoonup> cval"

text \<open>Truthiness, as \<^verbatim>\<open>options.noBearer ? ... : ...\<close> tests it on a field that may be absent.\<close>

fun truthy :: "cval option \<Rightarrow> bool" where
  "truthy None = False"
| "truthy (Some (J Undefined)) = False"
| "truthy (Some (J Null)) = False"
| "truthy (Some (J (Bool b))) = b"
| "truthy (Some (J (Num n))) = (n \<noteq> 0)"
| "truthy (Some (J (Str s))) = (s \<noteq> [])"
| "truthy (Some v) = True"

text \<open>Reading a field: an absent field reads as \<^verbatim>\<open>undefined\<close>.\<close>

definition field :: "config \<Rightarrow> string \<Rightarrow> cval" where
  "field cfg name = (case cfg name of None \<Rightarrow> J Undefined | Some v \<Rightarrow> v)"

subsection \<open>What axios does with a response\<close>

text \<open>
  The transport of a client is \<^verbatim>\<open>axios.create({ baseURL })\<close>. axios is a dependency of the
  repository, not part of it; what matters of it here is how its \<^verbatim>\<open>settle\<close> step treats
  the response the network gave:
  \<^verbatim>\<open>if (!response.status || !validateStatus || validateStatus(response.status))
  resolve(response); else reject(new AxiosError("Request failed with status code " +
  response.status, ..., response))\<close>,
  with \<^verbatim>\<open>validateStatus\<close> read from the configuration of the request and, when that has
  none, the default of the instance, \<^verbatim>\<open>status >= 200 && status < 300\<close>.
\<close>

definition default_validateStatus :: "int \<Rightarrow> bool" where
  "default_validateStatus s = (200 \<le> s \<and> s < 300)"

definition rejected :: "response \<Rightarrow> error" where
  "rejected res = AxiosError (''Request failed with status code '' @ show_int (status res)) res"

definition settle :: "config \<Rightarrow> response \<Rightarrow> error + response" where
  "settle cfg res =
     (if status res = 0 then Inr res
      else case cfg ''validateStatus'' of
             None \<Rightarrow> if default_validateStatus (status res) then Inr res else Inl (rejected res)
           | Some (Validator accepts) \<Rightarrow>
               if accepts (status res) then Inr res else Inl (rejected res)
           | Some v \<Rightarrow>
               if truthy (Some v) then Inl (TypeError ''validateStatus'') else Inr res)"

text \<open>axios over a network: a failure of the network is thrown on, a response is settled.\<close>

definition axios_request :: "(config \<Rightarrow> error + response) \<Rightarrow> config \<Rightarrow> error + response" where
  "axios_request network cfg =
     (case network cfg of Inl err \<Rightarrow> Inl err | Inr res \<Rightarrow> settle cfg res)"

section \<open>The client\<close>

text \<open>
  The two platform classes of \<^verbatim>\<open>src/blurit.node.ts\<close> and \<^verbatim>\<open>src/blurit.browser.ts\<close>
  extend the common class; which one a client is an instance of is fixed when it is built.
\<close>

datatype platform = NodeJs | Browser

record client =
  fetchInit :: "config option"
  loginData :: jsval
  isNode :: bool
  platform :: platform

text \<open>
  What lies outside the library: whether the runtime has a global \<^verbatim>\<open>window\<close>, the
  transport (\<^verbatim>\<open>axiosInstance.request\<close>, which answers with a response or throws),
  \<^verbatim>\<open>readFile\<close> of the host filesystem, and the content-type sniffer
  \<^verbatim>\<open>fileTypeFromBuffer\<close>, which gives a MIME type or nothing. The transport is any
  function here; the one a client really has is \<open>axios_request\<close> over some network.
\<close>

record env =
  window_defined :: bool
  transport :: "config \<Rightarrow> error + response"
  readFile :: "string \<Rightarrow> error + bytes"
  fileTypeFromBuffer :: "bytes \<Rightarrow> string option"

text \<open>
  What a call leaves behind: what it returned or threw, the client afterwards, and the
  configurations it handed to the transport, in order.
\<close>

record outcome =
  result :: result
  after :: client
  sent :: "config list"

text \<open>
  The constructor: \<^verbatim>\<open>loginData = {}\<close>, and \<^verbatim>\<open>isNode = typeof window === "undefined"\<close>,
  read once here. The static method \<^verbatim>\<open>new\<close> is this constructor followed by \<^verbatim>\<open>login\<close>.
\<close>

definition new_Blurit :: "platform \<Rightarrow> env \<Rightarrow> config option \<Rightarrow> client" where
  "new_Blurit p e fi =
     \<lparr>fetchInit = fi, loginData = Obj [], isNode = (\<not> window_defined e), platform = p\<rparr>"

definition spread :: "config option \<Rightarrow> config" where
  "spread fi = (case fi of None \<Rightarrow> Map.empty | Some cfg \<Rightarrow> cfg)"

text \<open>The \<^verbatim>\<open>headers\<close> object of \<^verbatim>\<open>request\<close>; reading the token may throw.\<close>

definition request_headers :: "client \<Rightarrow> config \<Rightarrow> error + jsval" where
  "request_headers c options =
     (if truthy (options ''noBearer'') then Inr (Obj [])
      else case get_prop (loginData c) ''token'' of
             Inl e \<Rightarrow> Inl e
           | Inr t \<Rightarrow> Inr (Obj [(''Authorization'', Str (''Bearer '' @ to_string t))]))"

text \<open>The object handed to \<^verbatim>\<open>axiosInstance.request\<close>.\<close>

definition request_config :: "client \<Rightarrow> string \<Rightarrow> config \<Rightarrow> jsval \<Rightarrow> config" where
  "request_config c path options headers =
     [''url'' \<mapsto> J (Str path)] ++ spread (fetchInit c) ++ options
       ++ [''data'' \<mapsto> field options ''data'', ''headers'' \<mapsto> J headers]"

text \<open>The private method \<^verbatim>\<open>request\<close>: it gives what it returns or throws, and what it sent.\<close>

definition request :: "env \<Rightarrow> client \<Rightarrow> string \<Rightarrow> config \<Rightarrow> result \<times> config list" where
  "request e c path options =
     (case request_headers c options of
        Inl err \<Rightarrow> (Inl err, [])
      | Inr headers \<Rightarrow>
          (let cfg = request_config c path options headers in
           case transport e cfg of
             Inl err \<Rightarrow> (Inl err, [cfg])
           | Inr res \<Rightarrow>
               (if status res \<ge> 300
                then (Inl (Error (''Error calling '' @ path @ '': '' @ statusText res)), [cfg])
                else (Inr (data res), [cfg]))))"

definition saveLoginData :: "client \<Rightarrow> jsval \<Rightarrow> client" where
  "saveLoginData c d = c\<lparr>loginData := d\<rparr>"

text \<open>A call that only passes on what \<^verbatim>\<open>request\<close> gave.\<close>

definition pass :: "client \<Rightarrow> result \<times> config list \<Rightarrow> outcome" where
  "pass c rs = \<lparr>result = fst rs, after = c, sent = snd rs\<rparr>"

text \<open>What \<^verbatim>\<open>login\<close> and \<^verbatim>\<open>refresh\<close> do with the answer of \<^verbatim>\<open>request\<close>.\<close>

definition save_if_ok :: "client \<Rightarrow> result \<times> config list \<Rightarrow> outcome" where
  "save_if_ok c rs =
     (case fst rs of
        Inl err \<Rightarrow> \<lparr>result = Inl err, after = c, sent = snd rs\<rparr>
      | Inr d \<Rightarrow>
          \<lparr>result = Inr d,
           after = (if \<not> instanceof_Error d then saveLoginData c d else c),
           sent = snd rs\<rparr>)"

text \<open>The per-call options of \<^verbatim>\<open>login\<close> and of \<^verbatim>\<open>refresh\<close>.\<close>

definition login_options :: "string \<Rightarrow> string \<Rightarrow> config" where
  "login_options clientId secretId =
     [''method'' \<mapsto> J (Str ''POST''),
      ''data'' \<mapsto> J (Obj [(''clientId'', Str clientId), (''secretId'', Str secretId)]),
      ''noBearer'' \<mapsto> J (Bool True)]"

definition refresh_options :: "jsval \<Rightarrow> config" where
  "refresh_options refreshToken =
     [''method'' \<mapsto> J (Str ''POST''),
      ''data'' \<mapsto> J (Obj [(''refreshToken'', refreshToken)])]"

definition login :: "env \<Rightarrow> client \<Rightarrow> string \<Rightarrow> string \<Rightarrow> outcome" where
  "login e c clientId secretId =
     save_if_ok c (request e c ''/login'' (login_options clientId secretId))"

text \<open>The argument \<^verbatim>\<open>this.loginData.refreshToken\<close> is read before \<^verbatim>\<open>request\<close> runs.\<close>

definition refresh :: "env \<Rightarrow> client \<Rightarrow> outcome" where
  "refresh e c =
     (case get_prop (loginData c) ''refreshToken'' of
        Inl err \<Rightarrow> \<lparr>result = Inl err, after = c, sent = []\<rparr>
      | Inr rt \<Rightarrow> save_if_ok c (request e c ''/token'' (refresh_options rt)))"

section \<open>The options encoder\<close>

text \<open>
  \<^verbatim>\<open>appendFormData\<close> takes \<^verbatim>\<open>any\<close>. What it tells apart is modelled as it tells it
  apart: absent values, scalars, files and blobs, and plain objects with their properties
  in the order \<^verbatim>\<open>for (const key in data)\<close> visits them. A number is kept as the string
  JavaScript prints it as (\<^verbatim>\<open>10\<close>, \<^verbatim>\<open>0.5\<close>, \<^verbatim>\<open>1e+21\<close>, \<^verbatim>\<open>NaN\<close>): the library does
  nothing with a number of the options but hand it to \<^verbatim>\<open>FormData.append\<close>, which stores
  that string, and test it for truth.
\<close>

datatype optval =
    OUndefined
  | ONull
  | OBool bool
  | ONum string
  | OStr string
  | OBlob blob
  | OFile blob string
  | OObj "(string \<times> optval) list"

text \<open>The string \<^verbatim>\<open>FormData.append\<close> makes of a value that is no blob.\<close>

fun opt_string :: "optval \<Rightarrow> string" where
  "opt_string OUndefined = ''undefined''"
| "opt_string ONull = ''null''"
| "opt_string (OBool b) = (if b then ''true'' else ''false'')"
| "opt_string (ONum printed) = printed"
| "opt_string (OStr s) = s"
| "opt_string (OBlob b) = ''[object Blob]''"
| "opt_string (OFile b n) = ''[object File]''"
| "opt_string (OObj ps) = ''[object Object]''"

text \<open>
  \<^verbatim>\<open>formData.append(name, value)\<close>: a file keeps its name, a blob that is no file
  travels as \<^verbatim>\<open>blob\<close>, anything else is appended as its string.
\<close>

fun fd_entry :: "optval \<Rightarrow> fd_value" where
  "fd_entry (OBlob b) = FdFile b ''blob''"
| "fd_entry (OFile b n) = FdFile b n"
| "fd_entry v = FdString (opt_string v)"

text \<open>\<^verbatim>\<open>parentKey!\<close> as a field name: an absent key reads \<^verbatim>\<open>undefined\<close>.\<close>

definition key_string :: "string option \<Rightarrow> string" where
  "key_string parentKey = (case parentKey of None \<Rightarrow> ''undefined'' | Some k \<Rightarrow> k)"

text \<open>\<^verbatim>\<open>parentKey ? `${parentKey}[${key}]` : key\<close>: an empty parent key is falsy.\<close>

definition newKey :: "string option \<Rightarrow> string \<Rightarrow> string" where
  "newKey parentKey key =
     (case parentKey of
        None \<Rightarrow> key
      | Some p \<Rightarrow> if p \<noteq> [] then p @ ''['' @ key @ '']'' else key)"

fun appendFormData :: "formdata \<Rightarrow> optval \<Rightarrow> string option \<Rightarrow> formdata"
  and appendProps :: "formdata \<Rightarrow> (string \<times> optval) list \<Rightarrow> string option \<Rightarrow> formdata"
where
  "appendFormData formData (OObj ps) parentKey = appendProps formData ps parentKey"
| "appendFormData formData OUndefined parentKey = formData"
| "appendFormData formData ONull parentKey = formData"
| "appendFormData formData v parentKey = formData @ [(key_string parentKey, fd_entry v)]"
| "appendProps formData [] parentKey = formData"
| "appendProps formData ((key, v) # rest) parentKey =
     (if v \<noteq> OUndefined \<and> v \<noteq> ONull
      then appendProps (appendFormData formData v (Some (newKey parentKey key))) rest parentKey
      else appendProps formData rest parentKey)"

section \<open>Creating jobs\<close>

text \<open>The \<^verbatim>\<open>File | Blob\<close> a job is created from; a file is a blob with a name.\<close>

datatype media = MBlob blob | MFile blob string

fun media_blob :: "media \<Rightarrow> blob" where
  "media_blob (MBlob b) = b"
| "media_blob (MFile b n) = b"

text \<open>
  \<^verbatim>\<open>if (args.options)\<close>. The numbers that count as false are zero, of either sign, and
  \<^verbatim>\<open>NaN\<close>; they are printed \<^verbatim>\<open>0\<close> and \<^verbatim>\<open>NaN\<close>, and no other number is.
\<close>

fun opt_truthy :: "optval \<Rightarrow> bool" where
  "opt_truthy OUndefined = False"
| "opt_truthy ONull = False"
| "opt_truthy (OBool b) = b"
| "opt_truthy (ONum printed) = (printed \<noteq> ''0'' \<and> printed \<noteq> ''NaN'')"
| "opt_truthy (OStr s) = (s \<noteq> [])"
| "opt_truthy v = True"

text \<open>
  \<^verbatim>\<open>data.append("input_media", args.data, args.data instanceof File ? args.data.name :
  args.filename)\<close>; a blob appended with no filename travels as \<^verbatim>\<open>blob\<close>.
\<close>

fun input_media :: "media \<Rightarrow> string option \<Rightarrow> string \<times> fd_value" where
  "input_media (MFile b n) filename = (''input_media'', FdFile b n)"
| "input_media (MBlob b) filename =
     (''input_media'', FdFile b (case filename of None \<Rightarrow> ''blob'' | Some f \<Rightarrow> f))"

text \<open>The form \<^verbatim>\<open>createJob\<close> builds.\<close>

definition createJob_form :: "media \<Rightarrow> string option \<Rightarrow> optval \<Rightarrow> formdata" where
  "createJob_form d filename options =
     (let form = [] @ [input_media d filename]
      in if opt_truthy options then appendFormData form options None else form)"

definition createJob :: "env \<Rightarrow> client \<Rightarrow> media \<Rightarrow> string option \<Rightarrow> optval \<Rightarrow> outcome" where
  "createJob e c d filename options =
     pass c (request e c ''/innovation-service/anonymization''
               [''method'' \<mapsto> J (Str ''POST''),
                ''data'' \<mapsto> Form (createJob_form d filename options)])"

text \<open>\<^verbatim>\<open>new Blob([buffer], { type: type?.mime })\<close>: no detected type gives the empty type.\<close>

definition sniffed_blob :: "env \<Rightarrow> bytes \<Rightarrow> blob" where
  "sniffed_blob e buffer =
     \<lparr>blob_bytes = buffer,
      blob_type = (case fileTypeFromBuffer e buffer of None \<Rightarrow> [] | Some mime \<Rightarrow> mime)\<rparr>"

definition createJobFromBuffer :: "env \<Rightarrow> client \<Rightarrow> bytes \<Rightarrow> string \<Rightarrow> optval \<Rightarrow> outcome" where
  "createJobFromBuffer e c buffer filename options =
     createJob e c (MBlob (sniffed_blob e buffer)) (Some filename) options"

definition createJobFromFile :: "env \<Rightarrow> client \<Rightarrow> blob \<Rightarrow> string \<Rightarrow> optval \<Rightarrow> outcome" where
  "createJobFromFile e c file_blob file_name options =
     createJob e c (MFile file_blob file_name) None options"

text \<open>The parameter is a \<^verbatim>\<open>Blob\<close>, which a \<^verbatim>\<open>File\<close> is too.\<close>

definition createJobFromBlob :: "env \<Rightarrow> client \<Rightarrow> media \<Rightarrow> string \<Rightarrow> optval \<Rightarrow> outcome" where
  "createJobFromBlob e c b filename options = createJob e c b (Some filename) options"

text \<open>\<^verbatim>\<open>filePath.split("/").pop()\<close>: what follows the last slash.\<close>

definition last_segment :: "string \<Rightarrow> string" where
  "last_segment filePath = rev (takeWhile (\<lambda>ch. ch \<noteq> CHR ''/'') (rev filePath))"

definition throw :: "client \<Rightarrow> error \<Rightarrow> outcome" where
  "throw c err = \<lparr>result = Inl err, after = c, sent = []\<rparr>"

definition createJobFromPath :: "env \<Rightarrow> client \<Rightarrow> string \<Rightarrow> optval \<Rightarrow> outcome" where
  "createJobFromPath e c filePath options =
     (case platform c of
        Browser \<Rightarrow> throw c (Error ''createJobFromPath is only available in Node.js'')
      | NodeJs \<Rightarrow>
          (case readFile e filePath of
             Inl err \<Rightarrow> throw c err
           | Inr fileBuffer \<Rightarrow>
               createJobFromBuffer e c fileBuffer (last_segment filePath) options))"

section \<open>Job status and results\<close>

definition getJobStatus :: "env \<Rightarrow> client \<Rightarrow> string \<Rightarrow> outcome" where
  "getJobStatus e c jobId =
     pass c (request e c (''/innovation-service/anonymization?anonymization_job_id='' @ jobId)
               [''method'' \<mapsto> J (Str ''GET'')])"

datatype responseType = Stream | ArrayBuffer | Buffer | Blob

fun responseType_name :: "responseType \<Rightarrow> string" where
  "responseType_name Stream = ''stream''"
| "responseType_name ArrayBuffer = ''arraybuffer''"
| "responseType_name Buffer = ''buffer''"
| "responseType_name Blob = ''blob''"

definition getResultFile :: "env \<Rightarrow> client \<Rightarrow> string \<Rightarrow> responseType \<Rightarrow> outcome" where
  "getResultFile e c filename rt =
     (if \<not> isNode c \<and> (rt = Buffer \<or> rt = Stream)
      then throw c (Error (responseType_name rt @ '' is not supported in the browser''))
      else pass c (request e c (''/innovation-service/result/'' @ filename)
                     [''method'' \<mapsto> J (Str ''GET''),
                      ''responseType'' \<mapsto>
                         J (Str (if rt = Buffer then ''arraybuffer'' else responseType_name rt))]))"

text \<open>
  \<^verbatim>\<open>responseData.pipe(createWriteStream(outputFilename))\<close>: only a stream has \<^verbatim>\<open>pipe\<close>.
  The method returns nothing. The file written outside the client is not modelled.
\<close>

fun pipe :: "jsval \<Rightarrow> result" where
  "pipe (StreamV b) = Inr Undefined"
| "pipe v = Inl (TypeError ''pipe'')"

definition saveResultFile :: "env \<Rightarrow> client \<Rightarrow> string \<Rightarrow> string \<Rightarrow> outcome" where
  "saveResultFile e c filename outputFilename =
     (case platform c of
        Browser \<Rightarrow> throw c (Error ''saveResultFile is only available in Node.js'')
      | NodeJs \<Rightarrow>
          (let got = getResultFile e c filename Stream in
           case result got of
             Inl err \<Rightarrow> got
           | Inr responseData \<Rightarrow> got\<lparr>result := pipe responseData\<rparr>))"

section \<open>Webhooks\<close>

definition getWebhooks :: "env \<Rightarrow> client \<Rightarrow> outcome" where
  "getWebhooks e c =
     pass c (request e c ''/webhook-url/get-many'' [''method'' \<mapsto> J (Str ''GET'')])"

definition createWebhook :: "env \<Rightarrow> client \<Rightarrow> string \<Rightarrow> outcome" where
  "createWebhook e c webhookUrl =
     pass c (request e c ''/webhook-url''
               [''method'' \<mapsto> J (Str ''POST''),
                ''data'' \<mapsto> J (Obj [(''webhookUrl'', Str webhookUrl)])])"

definition updateWebhook :: "env \<Rightarrow> client \<Rightarrow> string \<Rightarrow> string \<Rightarrow> outcome" where
  "updateWebhook e c ident webhookUrl =
     pass c (request e c (''/webhook-url/'' @ ident)
               [''method'' \<mapsto> J (Str ''PUT''),
                ''data'' \<mapsto> J (Obj [(''webhookUrl'', Str webhookUrl)])])"

definition deleteWebhook :: "env \<Rightarrow> client \<Rightarrow> string \<Rightarrow> outcome" where
  "deleteWebhook e c ident =
     pass c (request e c (''/webhook-url/'' @ ident) [''method'' \<mapsto> J (Str ''DELETE'')])"

definition testWebhook :: "env \<Rightarrow> client \<Rightarrow> string \<Rightarrow> outcome" where
  "testWebhook e c ident =
     pass c (request e c (''/webhook-url/test/'' @ ident) [''method'' \<mapsto> J (Str ''POST'')])"

section \<open>The public operations\<close>

datatype operation =
    Login string string
  | Refresh
  | CreateJobFromPath string optval
  | CreateJobFromBuffer bytes string optval
  | CreateJobFromFile blob string optval
  | CreateJobFromBlob media string optval
  | GetJobStatus string
  | GetResultFile string responseType
  | SaveResultFile string string
  | GetWebhooks
  | CreateWebhook string
  | UpdateWebhook string string
  | DeleteWebhook string
  | TestWebhook string

fun perform :: "env \<Rightarrow> client \<Rightarrow> operation \<Rightarrow> outcome" where
  "perform e c (Login clientId secretId) = login e c clientId secretId"
| "perform e c Refresh = refresh e c"
| "perform e c (CreateJobFromPath filePath options) = createJobFromPath e c filePath options"
| "perform e c (CreateJobFromBuffer buffer filename options) =
     createJobFromBuffer e c buffer filename options"
| "perform e c (CreateJobFromFile b n options) = createJobFromFile e c b n options"
| "perform e c (CreateJobFromBlob b filename options) = createJobFromBlob e c b filename options"
| "perform e c (GetJobStatus jobId) = getJobStatus e c jobId"
| "perform e c (GetResultFile filename rt) = getResultFile e c filename rt"
| "perform e c (SaveResultFile filename outputFilename) =
     saveResultFile e c filename outputFilename"
| "perform e c GetWebhooks = getWebhooks e c"
| "perform e c (CreateWebhook webhookUrl) = createWebhook e c webhookUrl"
| "perform e c (UpdateWebhook ident webhookUrl) = updateWebhook e c ident webhookUrl"
| "perform e c (DeleteWebhook ident) = deleteWebhook e c ident"
| "perform e c (TestWebhook ident) = testWebhook e c ident"

fun is_Login :: "operation \<Rightarrow> bool" where
  "is_Login (Login clientId secretId) = True"
| "is_Login operation = False"

text \<open>A client's lifetime: the calls made on it one after the other, each in its environment.\<close>

fun runs :: "client \<Rightarrow> (env \<times> operation) list \<Rightarrow> client" where
  "runs c [] = c"
| "runs c ((e, operation) # rest) = runs (after (perform e c operation)) rest"

text \<open>A history in which nobody logs in or refreshes.\<close>

fun session_free :: "(env \<times> operation) list \<Rightarrow> bool" where
  "session_free [] = True"
| "session_free ((e, operation) # rest) =
     (\<not> is_Login operation \<and> operation \<noteq> Refresh \<and> session_free rest)"

text \<open>One field of each configuration a call sent.\<close>

definition sent_fields :: "string \<Rightarrow> outcome \<Rightarrow> cval option list" where
  "sent_fields name out = map (\<lambda>cfg. cfg name) (sent out)"

text \<open>The option fields of a job: what the encoder makes of the options alone.\<close>

definition option_fields :: "optval \<Rightarrow> formdata" where
  "option_fields options = (if opt_truthy options then appendFormData [] options None else [])"

section \<open>The encoding as the specification words it\<close>

text \<open>
  The specification describes the form, not the loop: a depth-first walk in which an absent
  or null field gives nothing, a nested structure gives the fields found below it under the
  path so far, and anything else (a scalar, a file, a blob) is one field under its path.
  A path is the keys from the top; it is written \<^verbatim>\<open>a[b][c]\<close>.
\<close>

fun defined_fields :: "string list \<Rightarrow> optval \<Rightarrow> (string list \<times> optval) list"
  and defined_props :: "string list \<Rightarrow> (string \<times> optval) list \<Rightarrow> (string list \<times> optval) list"
where
  "defined_fields path (OObj ps) = defined_props path ps"
| "defined_fields path OUndefined = []"
| "defined_fields path ONull = []"
| "defined_fields path v = [(path, v)]"
| "defined_props path [] = []"
| "defined_props path ((key, v) # rest) =
     defined_fields (path @ [key]) v @ defined_props path rest"

fun bracketed :: "string list \<Rightarrow> string" where
  "bracketed [] = []"
| "bracketed (key # keys) = key @ concat (map (\<lambda>k. ''['' @ k @ '']'') keys)"

definition encode_field :: "string list \<times> optval \<Rightarrow> string \<times> fd_value" where
  "encode_field f = (bracketed (fst f), fd_entry (snd f))"

section \<open>Concrete servers, clients and options\<close>

text \<open>
  The inputs of the concrete runs further down: a sniffer that knows the magic number of
  JPEG, a transport that answers every request with one response whatever its status, a
  filesystem holding one file, a client that holds a token triple, and the options of the
  repository's example.
\<close>

definition jpeg_magic :: bytes where
  "jpeg_magic = [0xFF, 0xD8, 0xFF]"

definition sniff_jpeg :: "bytes \<Rightarrow> string option" where
  "sniff_jpeg buffer = (if take 3 buffer = jpeg_magic then Some ''image/jpeg'' else None)"

definition token_triple :: "string \<Rightarrow> string \<Rightarrow> int \<Rightarrow> jsval" where
  "token_triple t r x = Obj [(''token'', Str t), (''refreshToken'', Str r), (''expireTime'', Num x)]"

definition ok :: "jsval \<Rightarrow> response" where
  "ok d = \<lparr>status = 200, statusText = ''OK'', data = d\<rparr>"

definition unauthorized :: response where
  "unauthorized =
     \<lparr>status = 401, statusText = ''Unauthorized'', data = Obj [(''message'', Str ''expired'')]\<rparr>"

definition answering :: "bool \<Rightarrow> response \<Rightarrow> env" where
  "answering window res =
     \<lparr>window_defined = window,
      transport = (\<lambda>cfg. Inr res),
      readFile = (\<lambda>filePath. if filePath = ''./images/face.jpg'' then Inr jpeg_magic
                             else Inl (FsError filePath)),
      fileTypeFromBuffer = sniff_jpeg\<rparr>"

definition job_server :: env where
  "job_server = answering False (ok (Obj [(''anonymization_job_id'', Str ''job1'')]))"

definition logged_in :: "config option \<Rightarrow> client" where
  "logged_in fi =
     \<lparr>fetchInit = fi, loginData = token_triple ''tok1'' ''ref1'' 3600,
      isNode = True, platform = NodeJs\<rparr>"

definition face_options :: optval where
  "face_options =
     OObj [(''activation_faces_blur'', OBool True),
           (''activation_plates_blur'', OUndefined),
           (''blur_type'', OObj [(''anonymization_type'', OStr ''pixelate''),
                                 (''hex_color'', OUndefined),
                                 (''num_pixels'', ONum ''10'')])]"

definition text_blob :: blob where
  "text_blob = \<lparr>blob_bytes = jpeg_magic, blob_type = ''text/plain''\<rparr>"

definition jpeg_blob :: blob where
  "jpeg_blob = \<lparr>blob_bytes = jpeg_magic, blob_type = ''image/jpeg''\<rparr>"

text \<open>
  Options with every kind of value: scalars, one of them false, a fraction, fields that
  are \<^verbatim>\<open>undefined\<close> or \<^verbatim>\<open>null\<close>, a blob, and a file inside a nested object.
\<close>

definition mixed_options :: optval where
  "mixed_options =
     OObj [(''activation_faces_blur'', OBool True),
           (''activation_plates_blur'', OUndefined),
           (''output_detections_url'', OBool False),
           (''included_area'', ONull),
           (''blur_type'', OObj [(''anonymization_type'', OStr ''pixelate''),
                                 (''hex_color'', ONull),
                                 (''smooth_padding'', ONum ''0.5''),
                                 (''num_pixels'', ONum ''10'')]),
           (''mask'', OBlob text_blob),
           (''overlay'', OObj [(''logo'', OFile jpeg_blob ''logo.jpg'')])]"

text \<open>
  The same environment with the transport a client really has: axios over a network that
  gives the response.
\<close>

definition over_axios :: "env \<Rightarrow> env" where
  "over_axios e = e\<lparr>transport := axios_request (transport e)\<rparr>"

text \<open>
  A runtime with neither a \<^verbatim>\<open>window\<close> nor a filesystem, as a worker is: every read of
  a file fails.
\<close>

definition worker :: "response \<Rightarrow> env" where
  "worker res =
     \<lparr>window_defined = False,
      transport = (\<lambda>cfg. Inr res),
      readFile = (\<lambda>filePath. Inl (FsError filePath)),
      fileTypeFromBuffer = sniff_jpeg\<rparr>"

section \<open>Facts about the request pipeline\<close>

lemmas call_defs =
  request_def request_headers_def request_config_def spread_def field_def Let_def
  login_def login_options_def refresh_def refresh_options_def save_if_ok_def saveLoginData_def
  pass_def throw_def createJob_def createJob_form_def createJobFromBuffer_def
  createJobFromFile_def createJobFromBlob_def createJobFromPath_def sniffed_blob_def
  getJobStatus_def getResultFile_def saveResultFile_def getWebhooks_def createWebhook_def
  updateWebhook_def deleteWebhook_def testWebhook_def new_Blurit_def sent_fields_def

lemmas example_defs =
  jpeg_magic_def sniff_jpeg_def token_triple_def ok_def unauthorized_def answering_def
  logged_in_def face_options_def worker_def

lemmas more_defs = text_blob_def jpeg_blob_def job_server_def option_fields_def

lemma request_sent:
  "cfg \<in> set (snd (request e c path options)) \<Longrightarrow>
     \<exists>h. request_headers c options = Inr h \<and> cfg = request_config c path options h"
  by (auto simp: request_def Let_def split: sum.splits if_splits)

lemma request_sent_once:
  "request_headers c options = Inr h \<Longrightarrow>
   snd (request e c path options) = [request_config c path options h]"
  by (simp add: request_def Let_def split: sum.splits)

lemma request_config_headers: "request_config c path options h ''headers'' = Some (J h)"
  by (simp add: request_config_def)

lemma request_config_data:
  "request_config c path options h ''data'' = Some (field options ''data'')"
  by (simp add: request_config_def)

lemma request_config_other:
  "k \<noteq> ''data'' \<Longrightarrow> k \<noteq> ''headers'' \<Longrightarrow>
   request_config c path options h k =
     (case options k of
        Some v \<Rightarrow> Some v
      | None \<Rightarrow> (case spread (fetchInit c) k of
                   Some v \<Rightarrow> Some v
                 | None \<Rightarrow> if k = ''url'' then Some (J (Str path)) else None))"
  by (auto simp: request_config_def map_add_def split: option.splits)

lemma request_sent_data:
  "cfg \<in> set (snd (request e c path options)) \<Longrightarrow> cfg ''data'' = Some (field options ''data'')"
  using request_sent request_config_data by metis

lemma pass_simps [simp]:
  "result (pass c rs) = fst rs" "after (pass c rs) = c" "sent (pass c rs) = snd rs"
  by (simp_all add: pass_def)

lemma throw_simps [simp]:
  "result (throw c err) = Inl err" "after (throw c err) = c" "sent (throw c err) = []"
  by (simp_all add: throw_def)

lemma save_if_ok_sent [simp]: "sent (save_if_ok c rs) = snd rs"
  by (simp add: save_if_ok_def split: sum.splits)

lemma save_if_ok_result [simp]: "result (save_if_ok c rs) = fst rs"
  by (simp add: save_if_ok_def split: sum.splits)

lemma save_if_ok_after:
  "after (save_if_ok c rs) =
     (case fst rs of Inl err \<Rightarrow> c
      | Inr d \<Rightarrow> if instanceof_Error d then c else c\<lparr>loginData := d\<rparr>)"
  by (simp add: save_if_ok_def saveLoginData_def split: sum.splits)

lemma headers_bearer:
  "request_headers c options = Inr h \<Longrightarrow> \<not> truthy (options ''noBearer'') \<Longrightarrow>
   \<exists>t. get_prop (loginData c) ''token'' = Inr t \<and>
       h = Obj [(''Authorization'', Str (''Bearer '' @ to_string t))]"
  by (auto simp: request_headers_def split: sum.splits)

lemma headers_noBearer:
  "request_headers c options = Inr h \<Longrightarrow> truthy (options ''noBearer'') \<Longrightarrow> h = Obj []"
  by (auto simp: request_headers_def)

text \<open>What one pass through \<^verbatim>\<open>request\<close> puts into the fields that concern the bearer.\<close>

lemma sent_authorization:
  assumes "cfg \<in> set (snd (request e c path options))"
  shows "(if truthy (options ''noBearer'')
          then cfg ''headers'' = Some (J (Obj []))
          else \<exists>t. get_prop (loginData c) ''token'' = Inr t \<and>
                 cfg ''headers'' =
                   Some (J (Obj [(''Authorization'', Str (''Bearer '' @ to_string t))])))
       \<and> cfg ''noBearer'' =
           (case options ''noBearer'' of
              Some v \<Rightarrow> Some v | None \<Rightarrow> spread (fetchInit c) ''noBearer'')"
proof -
  obtain h where h: "request_headers c options = Inr h"
    and cfg: "cfg = request_config c path options h"
    using assms request_sent by blast
  have "cfg ''noBearer'' =
           (case options ''noBearer'' of
              Some v \<Rightarrow> Some v | None \<Rightarrow> spread (fetchInit c) ''noBearer'')"
    by (simp add: cfg request_config_other split: option.splits)
  moreover have "truthy (options ''noBearer'') \<Longrightarrow> cfg ''headers'' = Some (J (Obj []))"
    using h headers_noBearer by (simp add: cfg request_config_headers)
  moreover have "\<not> truthy (options ''noBearer'') \<Longrightarrow>
      \<exists>t. get_prop (loginData c) ''token'' = Inr t \<and>
          cfg ''headers'' = Some (J (Obj [(''Authorization'', Str (''Bearer '' @ to_string t))]))"
    using h headers_bearer [of c options h] by (auto simp: cfg request_config_headers)
  ultimately show ?thesis by simp
qed

lemma perform_sent_authorization:
  assumes "cfg \<in> set (sent (perform e c operation))"
  shows "if is_Login operation
         then cfg ''headers'' = Some (J (Obj [])) \<and> cfg ''noBearer'' = Some (J (Bool True))
         else (\<exists>t. get_prop (loginData c) ''token'' = Inr t \<and>
                 cfg ''headers'' =
                   Some (J (Obj [(''Authorization'', Str (''Bearer '' @ to_string t))])))
              \<and> cfg ''noBearer'' = spread (fetchInit c) ''noBearer''"
proof (cases operation)
  case (Login a b)
  with assms show ?thesis
    by (auto simp: login_def login_options_def dest!: sent_authorization)
next
  case Refresh
  with assms show ?thesis
    by (auto simp: refresh_def refresh_options_def split: sum.splits dest!: sent_authorization)
next
  case (CreateJobFromPath p opts)
  with assms show ?thesis
    by (auto simp: createJobFromPath_def createJobFromBuffer_def createJob_def
        split: platform.splits sum.splits dest!: sent_authorization)
next
  case (CreateJobFromBuffer b f opts)
  with assms show ?thesis
    by (auto simp: createJobFromBuffer_def createJob_def dest!: sent_authorization)
next
  case (CreateJobFromFile b n opts)
  with assms show ?thesis
    by (auto simp: createJobFromFile_def createJob_def dest!: sent_authorization)
next
  case (CreateJobFromBlob b f opts)
  with assms show ?thesis
    by (auto simp: createJobFromBlob_def createJob_def dest!: sent_authorization)
next
  case (GetJobStatus j)
  with assms show ?thesis
    by (auto simp: getJobStatus_def dest!: sent_authorization)
next
  case (GetResultFile f rt)
  with assms show ?thesis
    by (auto simp: getResultFile_def split: if_splits dest!: sent_authorization)
next
  case (SaveResultFile f out)
  with assms show ?thesis
    by (auto simp: saveResultFile_def getResultFile_def Let_def
        split: platform.splits if_splits sum.splits dest!: sent_authorization)
next
  case GetWebhooks
  with assms show ?thesis
    by (auto simp: getWebhooks_def dest!: sent_authorization)
next
  case (CreateWebhook u)
  with assms show ?thesis
    by (auto simp: createWebhook_def dest!: sent_authorization)
next
  case (UpdateWebhook i u)
  with assms show ?thesis
    by (auto simp: updateWebhook_def dest!: sent_authorization)
next
  case (DeleteWebhook i)
  with assms show ?thesis
    by (auto simp: deleteWebhook_def dest!: sent_authorization)
next
  case (TestWebhook i)
  with assms show ?thesis
    by (auto simp: testWebhook_def dest!: sent_authorization)
qed

lemma perform_after_other:
  "\<not> is_Login operation \<Longrightarrow> operation \<noteq> Refresh \<Longrightarrow> after (perform e c operation) = c"
  by (cases operation)
     (auto simp: createJobFromPath_def createJobFromBuffer_def createJobFromFile_def
        createJobFromBlob_def createJob_def getJobStatus_def getResultFile_def
        saveResultFile_def getWebhooks_def createWebhook_def updateWebhook_def
        deleteWebhook_def testWebhook_def Let_def
        split: platform.splits sum.splits)



lemma runs_session_free: "session_free history \<Longrightarrow> runs c history = c"
proof (induction history arbitrary: c)
  case Nil
  then show ?case by simp
next
  case (Cons step history)
  obtain e operation where "step = (e, operation)" by (cases step)
  with Cons show ?case by (simp add: perform_after_other)
qed

lemma refresh_headers_ok:
  "get_prop (loginData c) ''refreshToken'' = Inr rt \<Longrightarrow>
   \<exists>h. request_headers c (refresh_options rt) = Inr h"
  by (cases "loginData c") (simp_all add: request_headers_def refresh_options_def)

lemma refresh_sent:
  assumes "get_prop (loginData c) ''refreshToken'' = Inr rt"
  shows "\<exists>cfg. sent (refresh e c) = [cfg]
           \<and> cfg ''data'' = Some (J (Obj [(''refreshToken'', rt)]))
           \<and> cfg ''method'' = Some (J (Str ''POST''))
           \<and> cfg ''url'' = Some (case spread (fetchInit c) ''url'' of
                                   None \<Rightarrow> J (Str ''/token'') | Some u \<Rightarrow> u)"
proof -
  obtain h where h: "request_headers c (refresh_options rt) = Inr h"
    using assms refresh_headers_ok by blast
  have s: "sent (refresh e c) = [request_config c ''/token'' (refresh_options rt) h]"
    using assms h by (simp add: refresh_def request_sent_once)
  have "request_config c ''/token'' (refresh_options rt) h ''data''
          = Some (J (Obj [(''refreshToken'', rt)]))"
    by (simp add: request_config_data field_def refresh_options_def)
  moreover have "request_config c ''/token'' (refresh_options rt) h ''method''
          = Some (J (Str ''POST''))"
    by (simp add: request_config_other refresh_options_def)
  moreover have "request_config c ''/token'' (refresh_options rt) h ''url''
          = Some (case spread (fetchInit c) ''url'' of None \<Rightarrow> J (Str ''/token'') | Some u \<Rightarrow> u)"
    by (simp add: request_config_other refresh_options_def split: option.splits)
  ultimately show ?thesis using s by simp
qed

text \<open>What \<^verbatim>\<open>request\<close> does once the transport has handed back a response.\<close>

lemma request_on_resolved_response:
  assumes "request_headers c options = Inr h"
    and "transport e (request_config c path options h) = Inr res"
  shows "fst (request e c path options) =
           (if status res < 300 then Inr (data res)
            else Inl (Error (''Error calling '' @ path @ '': '' @ statusText res)))"
  using assms by (simp add: request_def Let_def)

text \<open>
  With axios as the transport and no \<^verbatim>\<open>validateStatus\<close> in the request: a response is
  handed back only with a status of 0 or from 200 to 299, so that the generic error is
  never thrown; any other status is thrown as the error of axios.
\<close>

lemma request_over_axios_default:
  assumes "request_headers c options = Inr h"
    and "network (request_config c path options h) = Inr res"
    and "request_config c path options h ''validateStatus'' = None"
    and "transport e = axios_request network"
  shows "fst (request e c path options) =
           (if status res = 0 \<or> default_validateStatus (status res) then Inr (data res)
            else Inl (rejected res))"
  using assms
  by (auto simp: request_def Let_def axios_request_def settle_def default_validateStatus_def)

section \<open>Facts about the options encoder\<close>

lemma append_prefix:
  "appendFormData (pre @ formData) v parentKey = pre @ appendFormData formData v parentKey"
  "appendProps (pre @ formData) ps parentKey = pre @ appendProps formData ps parentKey"
  by (induction formData v parentKey and formData ps parentKey
      rule: appendFormData_appendProps.induct) simp_all

lemma createJob_form_first:
  "createJob_form d filename options = input_media d filename # option_fields options"
  using append_prefix(1) [of "[input_media d filename]" "[]" options None]
  by (simp add: createJob_form_def option_fields_def)

lemma createJob_sent:
  "cfg \<in> set (sent (createJob e c d filename options)) \<Longrightarrow>
   cfg ''data'' = Some (Form (input_media d filename # option_fields options))"
  by (auto simp: createJob_def createJob_form_first field_def dest!: request_sent_data)

lemma bracketed_snoc:
  "path \<noteq> [] \<Longrightarrow> hd path \<noteq> [] \<Longrightarrow>
   newKey (Some (bracketed path)) key = bracketed (path @ [key])"
  by (cases path) (simp_all add: newKey_def)

lemma append_below:
  "path \<noteq> [] \<longrightarrow> hd path \<noteq> [] \<longrightarrow>
     (\<forall>formData. appendFormData formData v (Some (bracketed path)) =
        formData @ map encode_field (defined_fields path v))"
  "path \<noteq> [] \<longrightarrow> hd path \<noteq> [] \<longrightarrow>
     (\<forall>formData. appendProps formData ps (Some (bracketed path)) =
        formData @ map encode_field (defined_props path ps))"
proof (induction path v and path ps rule: defined_fields_defined_props.induct)
  case (6 path key v rest)
  show ?case
  proof (intro impI allI)
    fix formData
    assume p: "path \<noteq> []" "hd path \<noteq> []"
    then have q: "path @ [key] \<noteq> []" "hd (path @ [key]) \<noteq> []" by simp_all
    have k: "newKey (Some (bracketed path)) key = bracketed (path @ [key])"
      using p by (rule bracketed_snoc)
    show "appendProps formData ((key, v) # rest) (Some (bracketed path)) =
            formData @ map encode_field (defined_props path ((key, v) # rest))"
      using "6.IH" p q by (cases v) (simp_all add: k)
  qed
qed (simp_all add: encode_field_def key_string_def)

lemma append_top:
  "\<forall>key \<in> set (map fst ps). key \<noteq> [] \<Longrightarrow>
   appendProps formData ps None = formData @ map encode_field (defined_props [] ps)"
proof (induction ps arbitrary: formData)
  case Nil
  then show ?case by simp
next
  case (Cons p ps)
  obtain key v where p: "p = (key, v)" by (cases p)
  with Cons.prems have key: "key \<noteq> []" by simp
  have below: "appendFormData formData v (Some (bracketed [key])) =
                 formData @ map encode_field (defined_fields [key] v)"
    using append_below(1) [of "[key]" v] key by simp
  have rest: "\<And>fd. appendProps fd ps None = fd @ map encode_field (defined_props [] ps)"
    using Cons by simp
  show ?case
    using below rest by (cases v) (simp_all add: p newKey_def)
qed

lemma defined_are_leaves:
  "\<forall>f \<in> set (defined_fields path v).
      snd f \<noteq> OUndefined \<and> snd f \<noteq> ONull \<and> (\<forall>ps. snd f \<noteq> OObj ps)"
  "\<forall>f \<in> set (defined_props path ps).
      snd f \<noteq> OUndefined \<and> snd f \<noteq> ONull \<and> (\<forall>qs. snd f \<noteq> OObj qs)"
  by (induction path v and path ps rule: defined_fields_defined_props.induct) auto

section \<open>The claims\<close>

subsection \<open>Authorization header\<close>



subsection \<open>Status codes\<close>

text \<open>
  Claim C2 says that a response with a status of 300 or more makes the pipeline throw the
  generic error, whose message holds the path and the status text and nothing of the
  body. The source has that branch, but only a response that axios handed back reaches it.
  Take a client built with no base configuration, holding a token, whose server answers
  \<^verbatim>\<open>getWebhooks\<close> with 401 and a body: axios rejects the response, and what the call throws
  is the error of axios, which carries the response, body included. The generic error is
  not thrown.
\<close>

theorem default_client_throws_axios_error_on_401:
  "result (perform (over_axios (answering False unauthorized)) (logged_in None) GetWebhooks)
     = Inl (AxiosError ''Request failed with status code 401'' unauthorized)
   \<and> result (perform (over_axios (answering False unauthorized)) (logged_in None) GetWebhooks)
     \<noteq> Inl (Error ''Error calling /webhook-url/get-many: Unauthorized'')
   \<and> data unauthorized = Obj [(''message'', Str ''expired'')]"
proof -
  have "result (perform (over_axios (answering False unauthorized)) (logged_in None) GetWebhooks)
     = Inl (AxiosError ''Request failed with status code 401'' unauthorized)"
    by (simp add: getWebhooks_def request_def request_headers_def request_config_def
        spread_def field_def over_axios_def axios_request_def settle_def rejected_def
        default_validateStatus_def answering_def logged_in_def token_triple_def
        unauthorized_def show_int_def show_nat.simps)
  moreover have "data unauthorized = Obj [(''message'', Str ''expired'')]"
    by (simp add: unauthorized_def)
  ultimately show ?thesis by simp
qed

subsection \<open>Login and refresh\<close>

text \<open>
  Claim C3. For \<^verbatim>\<open>login\<close> and for \<^verbatim>\<open>refresh\<close>, in every client state: when the call
  returns a value \<open>d\<close> (a token triple is one; an \<^verbatim>\<open>Error\<close> instance is the one kind of
  value the guard of the source turns away), the client afterwards is the client before
  with its Session replaced by \<open>d\<close>, and \<open>d\<close> is what the caller gets; when the call throws,
  the client afterwards is the client before. What the caller gets or catches is what the
  pipeline returned or threw.
\<close>

theorem login_refresh_replace_or_keep_session:
  assumes "operation = Login clientId secretId \<or> operation = Refresh"
  shows "(\<forall>d. result (perform e c operation) = Inr d \<longrightarrow> \<not> instanceof_Error d \<longrightarrow>
             after (perform e c operation) = c\<lparr>loginData := d\<rparr>)
       \<and> (\<forall>err. result (perform e c operation) = Inl err \<longrightarrow>
             after (perform e c operation) = c)
       \<and> result (login e c clientId secretId) =
             fst (request e c ''/login'' (login_options clientId secretId))
       \<and> (\<forall>rt. get_prop (loginData c) ''refreshToken'' = Inr rt \<longrightarrow>
             result (refresh e c) = fst (request e c ''/token'' (refresh_options rt)))"
  using assms
  by (auto simp: login_def refresh_def save_if_ok_after split: sum.splits)

text \<open>A run: a login that succeeds on a new client, and a refresh that the server rejects.\<close>

theorem login_refresh_replace_or_keep_session_witness:
  "(Login ''cid'' ''sid'' = Login ''cid'' ''sid'' \<or> Login ''cid'' ''sid'' = Refresh)
   \<and> result (perform (answering False (ok (token_triple ''tok1'' ''ref1'' 3600)))
               (new_Blurit NodeJs (answering False unauthorized) None) (Login ''cid'' ''sid''))
       = Inr (token_triple ''tok1'' ''ref1'' 3600)
   \<and> \<not> instanceof_Error (token_triple ''tok1'' ''ref1'' 3600)
   \<and> after (perform (answering False (ok (token_triple ''tok1'' ''ref1'' 3600)))
               (new_Blurit NodeJs (answering False unauthorized) None) (Login ''cid'' ''sid''))
       = (new_Blurit NodeJs (answering False unauthorized) None)
           \<lparr>loginData := token_triple ''tok1'' ''ref1'' 3600\<rparr>
   \<and> result (perform (answering False unauthorized) (logged_in None) Refresh)
       = Inl (Error ''Error calling /token: Unauthorized'')
   \<and> after (perform (answering False unauthorized) (logged_in None) Refresh) = logged_in None"
proof -
  let ?e = "answering False (ok (token_triple ''tok1'' ''ref1'' 3600))"
  let ?c = "new_Blurit NodeJs (answering False unauthorized) None"
  have r: "result (perform ?e ?c (Login ''cid'' ''sid'')) = Inr (token_triple ''tok1'' ''ref1'' 3600)"
    by (simp add: call_defs example_defs)
  have n: "\<not> instanceof_Error (token_triple ''tok1'' ''ref1'' 3600)"
    by (simp add: token_triple_def)
  have f: "result (perform (answering False unauthorized) (logged_in None) Refresh)
       = Inl (Error ''Error calling /token: Unauthorized'')"
    by (simp add: call_defs example_defs)
  show ?thesis
    using r n f
      login_refresh_replace_or_keep_session [of "Login ''cid'' ''sid''" "''cid''" "''sid''" ?e ?c]
      login_refresh_replace_or_keep_session [of Refresh "''cid''" "''sid''"
         "answering False unauthorized" "logged_in None"]
    by simp
qed

subsection \<open>Operations that need the filesystem\<close>




subsection \<open>The options encoder\<close>

text \<open>
  Claim C5. For every options object whose keys at the top are not empty, as every key
  that \<^verbatim>\<open>AnonymizationOptions\<close> declares is, whatever else the object holds,
  \<^verbatim>\<open>appendFormData\<close> adds to the form exactly the fields the depth-first walk of the
  specification finds, in its order, each under its bracketed key path: a scalar as its
  string, a file or blob as itself and not walked into, a nested structure through the
  fields below it, and nothing for a field that is \<^verbatim>\<open>undefined\<close> or \<^verbatim>\<open>null\<close>. No field
  added comes from an absent value.
\<close>

theorem appendFormData_encodes_defined_fields:
  assumes "[] \<notin> set (map fst ps)"
  shows "appendFormData formData (OObj ps) None =
           formData @ map encode_field (defined_fields [] (OObj ps))
       \<and> (\<forall>f \<in> set (defined_fields [] (OObj ps)).
             snd f \<noteq> OUndefined \<and> snd f \<noteq> ONull \<and> (\<forall>qs. snd f \<noteq> OObj qs))"
proof -
  have "\<forall>key \<in> set (map fst ps). key \<noteq> []" using assms by metis
  then have "appendProps formData ps None = formData @ map encode_field (defined_props [] ps)"
    by (rule append_top)
  then show ?thesis using defined_are_leaves(2) [of "[]" ps] by simp
qed

text \<open>
  A run: options with scalars, a fraction, undefined and null fields, a blob, and a file
  inside a nested object.
\<close>

theorem appendFormData_encodes_defined_fields_witness:
  "[] \<notin> set (map fst [(''activation_faces_blur'', OBool True),
           (''activation_plates_blur'', OUndefined),
           (''output_detections_url'', OBool False),
           (''included_area'', ONull),
           (''blur_type'', OObj [(''anonymization_type'', OStr ''pixelate''),
                                 (''hex_color'', ONull),
                                 (''smooth_padding'', ONum ''0.5''),
                                 (''num_pixels'', ONum ''10'')]),
           (''mask'', OBlob text_blob),
           (''overlay'', OObj [(''logo'', OFile jpeg_blob ''logo.jpg'')])])
   \<and> appendFormData [] mixed_options None
       = [(''activation_faces_blur'', FdString ''true''),
          (''output_detections_url'', FdString ''false''),
          (''blur_type[anonymization_type]'', FdString ''pixelate''),
          (''blur_type[smooth_padding]'', FdString ''0.5''),
          (''blur_type[num_pixels]'', FdString ''10''),
          (''mask'', FdFile text_blob ''blob''),
          (''overlay[logo]'', FdFile jpeg_blob ''logo.jpg'')]"
proof -
  let ?ps = "[(''activation_faces_blur'', OBool True),
           (''activation_plates_blur'', OUndefined),
           (''output_detections_url'', OBool False),
           (''included_area'', ONull),
           (''blur_type'', OObj [(''anonymization_type'', OStr ''pixelate''),
                                 (''hex_color'', ONull),
                                 (''smooth_padding'', ONum ''0.5''),
                                 (''num_pixels'', ONum ''10'')]),
           (''mask'', OBlob text_blob),
           (''overlay'', OObj [(''logo'', OFile jpeg_blob ''logo.jpg'')])]"
  have a: "[] \<notin> set (map fst ?ps)" by simp
  have m: "mixed_options = OObj ?ps" by (simp add: mixed_options_def)
  have d: "map encode_field (defined_fields [] (OObj ?ps))
       = [(''activation_faces_blur'', FdString ''true''),
          (''output_detections_url'', FdString ''false''),
          (''blur_type[anonymization_type]'', FdString ''pixelate''),
          (''blur_type[smooth_padding]'', FdString ''0.5''),
          (''blur_type[num_pixels]'', FdString ''10''),
          (''mask'', FdFile text_blob ''blob''),
          (''overlay[logo]'', FdFile jpeg_blob ''logo.jpg'')]"
    by (simp add: encode_field_def)
  show ?thesis
    using a appendFormData_encodes_defined_fields [OF a, of "[]"] d
    unfolding m by simp
qed

subsection \<open>The input media of a job\<close>

text \<open>
  Claim C6, as the code has it. In every request a create-job call sends, the form begins
  with the field \<^verbatim>\<open>input_media\<close>, a file entry with its filename, and the option fields
  follow it. From a buffer, and from a path through the buffer read there, the blob of that
  entry is built from the bytes with the type the sniffer finds in them, under the given
  filename or the last segment of the path. From a file or a blob the entry holds the
  caller's blob as it came, its type included, under the name of the file or, for a blob
  that is no file, the given filename.
\<close>

theorem input_media_first_and_typed:
  "(cfg \<in> set (sent (createJobFromBuffer e c buffer filename options)) \<longrightarrow>
      cfg ''data'' = Some (Form ((''input_media'', FdFile (sniffed_blob e buffer) filename)
                                  # option_fields options)))
 \<and> (cfg \<in> set (sent (createJobFromPath e c filePath options)) \<longrightarrow>
      (\<exists>buffer. readFile e filePath = Inr buffer \<and>
         cfg ''data'' = Some (Form ((''input_media'',
                                      FdFile (sniffed_blob e buffer) (last_segment filePath))
                                     # option_fields options))))
 \<and> (cfg \<in> set (sent (createJobFromFile e c file_blob file_name options)) \<longrightarrow>
      cfg ''data'' = Some (Form ((''input_media'', FdFile file_blob file_name)
                                  # option_fields options)))
 \<and> (cfg \<in> set (sent (createJobFromBlob e c (MBlob b) filename options)) \<longrightarrow>
      cfg ''data'' = Some (Form ((''input_media'', FdFile b filename) # option_fields options)))
 \<and> (cfg \<in> set (sent (createJobFromBlob e c (MFile b name) filename options)) \<longrightarrow>
      cfg ''data'' = Some (Form ((''input_media'', FdFile b name) # option_fields options)))
 \<and> blob_bytes (sniffed_blob e buffer) = buffer
 \<and> blob_type (sniffed_blob e buffer) =
       (case fileTypeFromBuffer e buffer of None \<Rightarrow> [] | Some mime \<Rightarrow> mime)"
proof -
  have typed: "blob_bytes (sniffed_blob e buffer) = buffer
      \<and> blob_type (sniffed_blob e buffer) =
            (case fileTypeFromBuffer e buffer of None \<Rightarrow> [] | Some mime \<Rightarrow> mime)"
    by (simp add: sniffed_blob_def)
  have "(cfg \<in> set (sent (createJobFromBuffer e c buffer filename options)) \<longrightarrow>
      cfg ''data'' = Some (Form ((''input_media'', FdFile (sniffed_blob e buffer) filename)
                                  # option_fields options)))
 \<and> (cfg \<in> set (sent (createJobFromPath e c filePath options)) \<longrightarrow>
      (\<exists>buffer. readFile e filePath = Inr buffer \<and>
         cfg ''data'' = Some (Form ((''input_media'',
                                      FdFile (sniffed_blob e buffer) (last_segment filePath))
                                     # option_fields options))))
 \<and> (cfg \<in> set (sent (createJobFromFile e c file_blob file_name options)) \<longrightarrow>
      cfg ''data'' = Some (Form ((''input_media'', FdFile file_blob file_name)
                                  # option_fields options)))
 \<and> (cfg \<in> set (sent (createJobFromBlob e c (MBlob b) filename options)) \<longrightarrow>
      cfg ''data'' = Some (Form ((''input_media'', FdFile b filename) # option_fields options)))
 \<and> (cfg \<in> set (sent (createJobFromBlob e c (MFile b name) filename options)) \<longrightarrow>
      cfg ''data'' = Some (Form ((''input_media'', FdFile b name) # option_fields options)))"
    by (auto simp: createJobFromBuffer_def createJobFromPath_def createJobFromFile_def
        createJobFromBlob_def split: platform.splits sum.splits dest!: createJob_sent)
  then show ?thesis using typed by blast
qed

text \<open>A run of each of the five cases against one server.\<close>

theorem input_media_first_and_typed_witness:
  "hd (sent (createJobFromBuffer job_server (logged_in None) jpeg_magic ''face.jpg'' face_options))
     \<in> set (sent (createJobFromBuffer job_server (logged_in None) jpeg_magic ''face.jpg'' face_options))
   \<and> hd (sent (createJobFromBuffer job_server (logged_in None) jpeg_magic ''face.jpg'' face_options))
        ''data''
       = Some (Form [(''input_media'', FdFile jpeg_blob ''face.jpg''),
                     (''activation_faces_blur'', FdString ''true''),
                     (''blur_type[anonymization_type]'', FdString ''pixelate''),
                     (''blur_type[num_pixels]'', FdString ''10'')])
   \<and> hd (sent (createJobFromPath job_server (logged_in None) ''./images/face.jpg'' OUndefined))
     \<in> set (sent (createJobFromPath job_server (logged_in None) ''./images/face.jpg'' OUndefined))
   \<and> hd (sent (createJobFromPath job_server (logged_in None) ''./images/face.jpg'' OUndefined))
        ''data''
       = Some (Form [(''input_media'', FdFile jpeg_blob ''face.jpg'')])
   \<and> hd (sent (createJobFromFile job_server (logged_in None) text_blob ''notes.txt'' OUndefined))
     \<in> set (sent (createJobFromFile job_server (logged_in None) text_blob ''notes.txt'' OUndefined))
   \<and> hd (sent (createJobFromFile job_server (logged_in None) text_blob ''notes.txt'' OUndefined))
        ''data''
       = Some (Form [(''input_media'', FdFile text_blob ''notes.txt'')])
   \<and> hd (sent (createJobFromBlob job_server (logged_in None) (MBlob text_blob) ''photo.jpg'' OUndefined))
     \<in> set (sent (createJobFromBlob job_server (logged_in None) (MBlob text_blob) ''photo.jpg'' OUndefined))
   \<and> hd (sent (createJobFromBlob job_server (logged_in None) (MBlob text_blob) ''photo.jpg'' OUndefined))
        ''data''
       = Some (Form [(''input_media'', FdFile text_blob ''photo.jpg'')])
   \<and> hd (sent (createJobFromBlob job_server (logged_in None) (MFile text_blob ''notes.txt'') ''photo.jpg'' OUndefined))
     \<in> set (sent (createJobFromBlob job_server (logged_in None) (MFile text_blob ''notes.txt'') ''photo.jpg'' OUndefined))
   \<and> hd (sent (createJobFromBlob job_server (logged_in None) (MFile text_blob ''notes.txt'') ''photo.jpg'' OUndefined))
        ''data''
       = Some (Form [(''input_media'', FdFile text_blob ''notes.txt'')])"
proof -
  let ?c = "logged_in None"
  let ?a = "createJobFromBuffer job_server ?c jpeg_magic ''face.jpg'' face_options"
  let ?b = "createJobFromPath job_server ?c ''./images/face.jpg'' OUndefined"
  let ?f = "createJobFromFile job_server ?c text_blob ''notes.txt'' OUndefined"
  let ?g = "createJobFromBlob job_server ?c (MBlob text_blob) ''photo.jpg'' OUndefined"
  let ?h = "createJobFromBlob job_server ?c (MFile text_blob ''notes.txt'') ''photo.jpg'' OUndefined"
  have a: "hd (sent ?a) \<in> set (sent ?a)" by (simp add: call_defs example_defs more_defs)
  have b: "hd (sent ?b) \<in> set (sent ?b)" by (simp add: call_defs example_defs more_defs)
  have f: "hd (sent ?f) \<in> set (sent ?f)" by (simp add: call_defs example_defs more_defs)
  have g: "hd (sent ?g) \<in> set (sent ?g)" by (simp add: call_defs example_defs more_defs)
  have h: "hd (sent ?h) \<in> set (sent ?h)" by (simp add: call_defs example_defs more_defs)
  have fields: "option_fields face_options
        = [(''activation_faces_blur'', FdString ''true''),
           (''blur_type[anonymization_type]'', FdString ''pixelate''),
           (''blur_type[num_pixels]'', FdString ''10'')]"
    by (simp add: option_fields_def face_options_def newKey_def key_string_def show_int_def
        show_nat.simps)
  have none: "option_fields OUndefined = []" by (simp add: option_fields_def)
  have sn: "sniffed_blob job_server jpeg_magic = jpeg_blob"
    by (simp add: sniffed_blob_def example_defs more_defs)
  have rd: "readFile job_server ''./images/face.jpg'' = Inr jpeg_magic"
    by (simp add: example_defs more_defs)
  have ls: "last_segment ''./images/face.jpg'' = ''face.jpg''"
    by (simp add: last_segment_def)
  show ?thesis
    using a b f g h
      input_media_first_and_typed [where cfg = "hd (sent ?a)" and e = job_server and c = ?c
        and buffer = jpeg_magic and filename = "''face.jpg''" and options = face_options]
      input_media_first_and_typed [where cfg = "hd (sent ?b)" and e = job_server and c = ?c
        and filePath = "''./images/face.jpg''" and options = OUndefined]
      input_media_first_and_typed [where cfg = "hd (sent ?f)" and e = job_server and c = ?c
        and file_blob = text_blob and file_name = "''notes.txt''" and options = OUndefined]
      input_media_first_and_typed [where cfg = "hd (sent ?g)" and e = job_server and c = ?c
        and b = text_blob and filename = "''photo.jpg''" and options = OUndefined]
      input_media_first_and_typed [where cfg = "hd (sent ?h)" and e = job_server and c = ?c
        and b = text_blob and name = "''notes.txt''" and filename = "''photo.jpg''"
        and options = OUndefined]
    by (simp add: fields none sn rd ls)
qed

text \<open>
  The claim as it was stated fails for a blob: a blob whose bytes begin with the magic
  number of JPEG, handed over with the type \<^verbatim>\<open>text/plain\<close>, is sent with the type
  \<^verbatim>\<open>text/plain\<close>, though the sniffer finds \<^verbatim>\<open>image/jpeg\<close> in its bytes.
\<close>

theorem caller_blob_type_not_sniffed_counterexample:
  "sent_fields ''data'' (createJobFromBlob job_server (logged_in None) (MBlob text_blob)
                           ''photo.jpg'' OUndefined)
     = [Some (Form [(''input_media'', FdFile text_blob ''photo.jpg'')])]
   \<and> blob_type text_blob = ''text/plain''
   \<and> fileTypeFromBuffer job_server (blob_bytes text_blob) = Some ''image/jpeg''"
proof -
  have "sent_fields ''data'' (createJobFromBlob job_server (logged_in None) (MBlob text_blob)
                           ''photo.jpg'' OUndefined)
     = [Some (Form [(''input_media'', FdFile text_blob ''photo.jpg'')])]"
    by (simp add: call_defs example_defs job_server_def)
  moreover have "blob_type text_blob = ''text/plain''"
    by (simp add: text_blob_def)
  moreover have "fileTypeFromBuffer job_server (blob_bytes text_blob) = Some ''image/jpeg''"
    by (simp add: example_defs more_defs)
  ultimately show ?thesis by simp
qed

subsection \<open>Refresh\<close>

text \<open>
  Claim C7, as the code has it. Whenever the \<^verbatim>\<open>refreshToken\<close> property of the stored
  Session can be read, as \<open>rt\<close>, \<^verbatim>\<open>refresh\<close> sends exactly one request, a \<^verbatim>\<open>POST\<close> whose
  body is \<^verbatim>\<open>{refreshToken: rt}\<close>; its url is \<^verbatim>\<open>/token\<close> unless the base configuration
  has a url of its own, which then takes its place. Nothing is checked first: on a client
  just built the property reads \<^verbatim>\<open>undefined\<close>, and that is what is sent.
\<close>

theorem refresh_sends_stored_refresh_token:
  "(get_prop (loginData c) ''refreshToken'' = Inr rt \<longrightarrow>
      (\<exists>cfg. sent (refresh e c) = [cfg]
           \<and> cfg ''data'' = Some (J (Obj [(''refreshToken'', rt)]))
           \<and> cfg ''method'' = Some (J (Str ''POST''))
           \<and> cfg ''url'' = Some (case spread (fetchInit c) ''url'' of
                                   None \<Rightarrow> J (Str ''/token'') | Some u \<Rightarrow> u)))
 \<and> get_prop (loginData (new_Blurit p e0 fi)) ''refreshToken'' = Inr Undefined"
  using refresh_sent by (simp add: new_Blurit_def)

text \<open>A run: \<^verbatim>\<open>refresh\<close> on a client that never logged in.\<close>

theorem refresh_sends_stored_refresh_token_witness:
  "get_prop (loginData (new_Blurit NodeJs job_server None)) ''refreshToken'' = Inr Undefined
   \<and> sent_fields ''data'' (refresh (answering False unauthorized) (new_Blurit NodeJs job_server None))
       = [Some (J (Obj [(''refreshToken'', Undefined)]))]
   \<and> sent_fields ''url'' (refresh (answering False unauthorized) (new_Blurit NodeJs job_server None))
       = [Some (J (Str ''/token''))]"
proof -
  let ?c = "new_Blurit NodeJs job_server None"
  have u: "spread (fetchInit ?c) ''url'' = None" by (simp add: new_Blurit_def spread_def)
  show ?thesis
    using refresh_sends_stored_refresh_token [of ?c Undefined "answering False unauthorized"
        NodeJs job_server None]
    by (auto simp: sent_fields_def u)
qed

text \<open>
  The claim as it was stated fails on the route: with a base configuration that sets
  \<^verbatim>\<open>url\<close>, the request of \<^verbatim>\<open>refresh\<close> goes to that url, not to \<^verbatim>\<open>/token\<close>.
\<close>

theorem base_url_replaces_token_route_counterexample:
  "sent_fields ''url'' (refresh (answering False (ok (token_triple ''tok2'' ''ref2'' 3600)))
                          (logged_in (Some [''url'' \<mapsto> J (Str ''/elsewhere'')])))
     = [Some (J (Str ''/elsewhere''))]"
  by (simp add: call_defs example_defs)

subsection \<open>Login, then refresh\<close>

text \<open>
  Claim C8. Let a login return the value \<open>d1\<close> and the refresh that follows it return the
  value \<open>d2\<close>. Then the refresh sent one request, whose body is \<^verbatim>\<open>{refreshToken: rt}\<close> with
  \<open>rt\<close> the \<^verbatim>\<open>refreshToken\<close> of \<open>d1\<close>; the client ends holding \<open>d2\<close>; and as long as nobody
  logs in or refreshes again, every request of every later operation carries
  \<^verbatim>\<open>Bearer\<close> followed by the \<^verbatim>\<open>token\<close> of \<open>d2\<close>, whatever \<open>d1\<close> held.
\<close>

theorem login_then_refresh:
  assumes "result (login e1 c clientId secretId) = Inr d1" and "\<not> instanceof_Error d1"
    and "c1 = after (login e1 c clientId secretId)"
    and "result (refresh e2 c1) = Inr d2" and "\<not> instanceof_Error d2"
    and "c2 = after (refresh e2 c1)"
  shows "(\<exists>rt cfg. get_prop d1 ''refreshToken'' = Inr rt \<and> sent (refresh e2 c1) = [cfg]
            \<and> cfg ''data'' = Some (J (Obj [(''refreshToken'', rt)])))
       \<and> loginData c2 = d2
       \<and> (session_free history \<longrightarrow> \<not> is_Login operation \<longrightarrow>
            cfg' \<in> set (sent (perform e3 (runs c2 history) operation)) \<longrightarrow>
            (\<exists>t. get_prop d2 ''token'' = Inr t \<and>
               cfg' ''headers'' =
                 Some (J (Obj [(''Authorization'', Str (''Bearer '' @ to_string t))]))))"
proof -
  have l1: "loginData c1 = d1"
    using assms(1,2,3) by (simp add: login_def save_if_ok_after)
  obtain rt where rt: "get_prop d1 ''refreshToken'' = Inr rt"
    using assms(4) l1 by (cases "get_prop d1 ''refreshToken''") (simp_all add: refresh_def)
  have first: "\<exists>rt cfg. get_prop d1 ''refreshToken'' = Inr rt \<and> sent (refresh e2 c1) = [cfg]
            \<and> cfg ''data'' = Some (J (Obj [(''refreshToken'', rt)]))"
    using refresh_sent [of c1 rt e2] rt l1 by auto
  have l2: "loginData c2 = d2"
    using assms(4,5,6) rt l1 by (simp add: refresh_def save_if_ok_after)
  have later: "session_free history \<longrightarrow> \<not> is_Login operation \<longrightarrow>
            cfg' \<in> set (sent (perform e3 (runs c2 history) operation)) \<longrightarrow>
            (\<exists>t. get_prop d2 ''token'' = Inr t \<and>
               cfg' ''headers'' =
                 Some (J (Obj [(''Authorization'', Str (''Bearer '' @ to_string t))])))"
    using perform_sent_authorization [of cfg' e3 c2 operation] l2
    by (auto simp: runs_session_free)
  show ?thesis using first l2 later by blast
qed

text \<open>
  A run: login answered with \<^verbatim>\<open>tok1\<close> and \<^verbatim>\<open>ref1\<close>, refresh answered with \<^verbatim>\<open>tok2\<close> and
  \<^verbatim>\<open>ref2\<close>, then a status check and a listing of the webhooks.
\<close>

theorem login_then_refresh_witness:
  "result (login (answering False (ok (token_triple ''tok1'' ''ref1'' 3600)))
             (new_Blurit NodeJs job_server None) ''cid'' ''sid'')
     = Inr (token_triple ''tok1'' ''ref1'' 3600)
   \<and> \<not> instanceof_Error (token_triple ''tok1'' ''ref1'' 3600)
   \<and> result (refresh (answering False (ok (token_triple ''tok2'' ''ref2'' 7200)))
               (after (login (answering False (ok (token_triple ''tok1'' ''ref1'' 3600)))
                         (new_Blurit NodeJs job_server None) ''cid'' ''sid'')))
       = Inr (token_triple ''tok2'' ''ref2'' 7200)
   \<and> \<not> instanceof_Error (token_triple ''tok2'' ''ref2'' 7200)
   \<and> sent_fields ''data''
        (refresh (answering False (ok (token_triple ''tok2'' ''ref2'' 7200)))
           (after (login (answering False (ok (token_triple ''tok1'' ''ref1'' 3600)))
                     (new_Blurit NodeJs job_server None) ''cid'' ''sid'')))
       = [Some (J (Obj [(''refreshToken'', Str ''ref1'')]))]
   \<and> loginData (after (refresh (answering False (ok (token_triple ''tok2'' ''ref2'' 7200)))
           (after (login (answering False (ok (token_triple ''tok1'' ''ref1'' 3600)))
                     (new_Blurit NodeJs job_server None) ''cid'' ''sid''))))
       = token_triple ''tok2'' ''ref2'' 7200
   \<and> session_free [(job_server, GetJobStatus ''job1'')]
   \<and> \<not> is_Login GetWebhooks
   \<and> sent_fields ''headers''
        (perform job_server
           (runs (after (refresh (answering False (ok (token_triple ''tok2'' ''ref2'' 7200)))
                    (after (login (answering False (ok (token_triple ''tok1'' ''ref1'' 3600)))
                              (new_Blurit NodeJs job_server None) ''cid'' ''sid''))))
                 [(job_server, GetJobStatus ''job1'')])
           GetWebhooks)
       = [Some (J (Obj [(''Authorization'', Str ''Bearer tok2'')]))]"
proof -
  let ?t1 = "token_triple ''tok1'' ''ref1'' 3600"
  let ?t2 = "token_triple ''tok2'' ''ref2'' 7200"
  let ?e1 = "answering False (ok ?t1)"
  let ?e2 = "answering False (ok ?t2)"
  let ?c = "new_Blurit NodeJs job_server None"
  let ?c1 = "after (login ?e1 ?c ''cid'' ''sid'')"
  let ?c2 = "after (refresh ?e2 ?c1)"
  let ?h = "[(job_server, GetJobStatus ''job1'')]"
  let ?out = "perform job_server (runs ?c2 ?h) GetWebhooks"
  have r1: "result (login ?e1 ?c ''cid'' ''sid'') = Inr ?t1"
    by (simp add: login_def answering_def ok_def request_def request_headers_def
        login_options_def)
  have n1: "\<not> instanceof_Error ?t1" by (simp add: token_triple_def)
  have n2: "\<not> instanceof_Error ?t2" by (simp add: token_triple_def)
  have c1: "?c1 = ?c\<lparr>loginData := ?t1\<rparr>"
    using r1 n1 by (simp add: login_def save_if_ok_after)
  have p1: "get_prop (loginData ?c1) ''refreshToken'' = Inr (Str ''ref1'')"
    unfolding c1 by (simp add: token_triple_def)
  have q1: "get_prop (loginData ?c1) ''token'' = Inr (Str ''tok1'')"
    unfolding c1 by (simp add: token_triple_def)
  have r2: "result (refresh ?e2 ?c1) = Inr ?t2"
    using p1 q1
    by (simp add: refresh_def answering_def ok_def request_def request_headers_def
        refresh_options_def)
  have p2: "get_prop ?t2 ''token'' = Inr (Str ''tok2'')" by (simp add: token_triple_def)
  have t1: "get_prop ?t1 ''refreshToken'' = Inr (Str ''ref1'')" by (simp add: token_triple_def)
  have sf: "session_free ?h" by simp
  have nl: "\<not> is_Login GetWebhooks" by simp
  note main = login_then_refresh [OF r1 n1 refl r2 n2 refl, where history = ?h
      and operation = GetWebhooks and cfg' = "hd (sent ?out)" and ?e3.0 = job_server]
  have l: "loginData ?c2 = ?t2" using main by simp
  have d: "sent_fields ''data'' (refresh ?e2 ?c1) = [Some (J (Obj [(''refreshToken'', Str ''ref1'')]))]"
    using main t1 by (auto simp: sent_fields_def)
  have rn: "runs ?c2 ?h = ?c2" using sf by (rule runs_session_free)
  have tk: "get_prop (loginData ?c2) ''token'' = Inr (Str ''tok2'')"
    using l p2 by simp
  have s: "sent ?out
        = [request_config ?c2 ''/webhook-url/get-many'' [''method'' \<mapsto> J (Str ''GET'')]
             (Obj [(''Authorization'', Str ''Bearer tok2'')])]"
    unfolding rn using tk
    by (simp add: getWebhooks_def request_def request_headers_def job_server_def answering_def
        ok_def)
  have m: "hd (sent ?out) \<in> set (sent ?out)" unfolding s by simp
  have h: "hd (sent ?out) ''headers'' = Some (J (Obj [(''Authorization'', Str ''Bearer tok2'')]))"
    using main sf nl m p2 by simp
  have sh: "sent_fields ''headers'' ?out = [hd (sent ?out) ''headers'']"
    unfolding sent_fields_def s by simp
  show ?thesis
    using r1 n1 r2 n2 d l sf nl h sh by simp
qed

subsection \<open>The layers of a request\<close>

text \<open>
  Claim C9, as the code has it. A configuration handed to the transport is the merge of
  four layers, a later one winning over an earlier one: the path as \<^verbatim>\<open>url\<close>, the base
  configuration, the options of the call, and last the two fields \<^verbatim>\<open>data\<close> and
  \<^verbatim>\<open>headers\<close>. Field by field: \<^verbatim>\<open>headers\<close> is exactly the computed header object, the
  bearer of the Session's token or, with the suppression flag, the empty object;
  \<^verbatim>\<open>data\<close> is the body of the call, \<^verbatim>\<open>undefined\<close> when the call has none; every other
  field the options of the call set has their value; every other field that only the base
  configuration sets keeps the value it has there; \<^verbatim>\<open>url\<close> is the path when neither sets
  it; and a field that none of the layers sets is absent.
\<close>

theorem request_config_layers:
  assumes "cfg \<in> set (snd (request e c path options))"
  shows "(if truthy (options ''noBearer'')
          then cfg ''headers'' = Some (J (Obj []))
          else \<exists>t. get_prop (loginData c) ''token'' = Inr t \<and>
                 cfg ''headers'' =
                   Some (J (Obj [(''Authorization'', Str (''Bearer '' @ to_string t))])))
       \<and> cfg ''data'' = Some (case options ''data'' of None \<Rightarrow> J Undefined | Some d \<Rightarrow> d)
       \<and> (k \<noteq> ''data'' \<longrightarrow> k \<noteq> ''headers'' \<longrightarrow> options k = Some v \<longrightarrow> cfg k = Some v)
       \<and> (k \<noteq> ''data'' \<longrightarrow> k \<noteq> ''headers'' \<longrightarrow> options k = None \<longrightarrow>
            spread (fetchInit c) k = Some v \<longrightarrow> cfg k = Some v)
       \<and> (options ''url'' = None \<longrightarrow> spread (fetchInit c) ''url'' = None \<longrightarrow>
            cfg ''url'' = Some (J (Str path)))
       \<and> (k \<noteq> ''url'' \<longrightarrow> k \<noteq> ''data'' \<longrightarrow> k \<noteq> ''headers'' \<longrightarrow> options k = None \<longrightarrow>
            spread (fetchInit c) k = None \<longrightarrow> cfg k = None)"
proof -
  obtain h where h: "request_headers c options = Inr h"
    and cfg: "cfg = request_config c path options h"
    using assms request_sent by blast
  have "if truthy (options ''noBearer'')
          then cfg ''headers'' = Some (J (Obj []))
          else \<exists>t. get_prop (loginData c) ''token'' = Inr t \<and>
                 cfg ''headers'' =
                   Some (J (Obj [(''Authorization'', Str (''Bearer '' @ to_string t))]))"
    using sent_authorization [OF assms] by (rule conjunct1)
  moreover have "cfg ''data'' = Some (case options ''data'' of None \<Rightarrow> J Undefined | Some d \<Rightarrow> d)"
    by (simp add: cfg request_config_data field_def)
  moreover have "k \<noteq> ''data'' \<longrightarrow> k \<noteq> ''headers'' \<longrightarrow> options k = Some v \<longrightarrow> cfg k = Some v"
    by (simp add: cfg request_config_other)
  moreover have "k \<noteq> ''data'' \<longrightarrow> k \<noteq> ''headers'' \<longrightarrow> options k = None \<longrightarrow>
            spread (fetchInit c) k = Some v \<longrightarrow> cfg k = Some v"
    by (simp add: cfg request_config_other)
  moreover have "options ''url'' = None \<longrightarrow> spread (fetchInit c) ''url'' = None \<longrightarrow>
            cfg ''url'' = Some (J (Str path))"
    by (simp add: cfg request_config_other)
  moreover have "k \<noteq> ''url'' \<longrightarrow> k \<noteq> ''data'' \<longrightarrow> k \<noteq> ''headers'' \<longrightarrow> options k = None \<longrightarrow>
            spread (fetchInit c) k = None \<longrightarrow> cfg k = None"
    by (simp add: cfg request_config_other)
  ultimately show ?thesis by blast
qed

text \<open>
  A run: a base configuration with a timeout and a method, and a \<^verbatim>\<open>GET\<close>; no layer
  sets \<^verbatim>\<open>maxRedirects\<close>.
\<close>

theorem request_config_layers_witness:
  "hd (snd (request (answering False (ok (Arr [])))
              (logged_in (Some [''timeout'' \<mapsto> J (Num 5000), ''method'' \<mapsto> J (Str ''HEAD'')]))
              ''/webhook-url/get-many'' [''method'' \<mapsto> J (Str ''GET'')]))
     \<in> set (snd (request (answering False (ok (Arr [])))
              (logged_in (Some [''timeout'' \<mapsto> J (Num 5000), ''method'' \<mapsto> J (Str ''HEAD'')]))
              ''/webhook-url/get-many'' [''method'' \<mapsto> J (Str ''GET'')]))
   \<and> hd (snd (request (answering False (ok (Arr [])))
              (logged_in (Some [''timeout'' \<mapsto> J (Num 5000), ''method'' \<mapsto> J (Str ''HEAD'')]))
              ''/webhook-url/get-many'' [''method'' \<mapsto> J (Str ''GET'')])) ''timeout''
       = Some (J (Num 5000))
   \<and> hd (snd (request (answering False (ok (Arr [])))
              (logged_in (Some [''timeout'' \<mapsto> J (Num 5000), ''method'' \<mapsto> J (Str ''HEAD'')]))
              ''/webhook-url/get-many'' [''method'' \<mapsto> J (Str ''GET'')])) ''method''
       = Some (J (Str ''GET''))
   \<and> hd (snd (request (answering False (ok (Arr [])))
              (logged_in (Some [''timeout'' \<mapsto> J (Num 5000), ''method'' \<mapsto> J (Str ''HEAD'')]))
              ''/webhook-url/get-many'' [''method'' \<mapsto> J (Str ''GET'')])) ''url''
       = Some (J (Str ''/webhook-url/get-many''))
   \<and> hd (snd (request (answering False (ok (Arr [])))
              (logged_in (Some [''timeout'' \<mapsto> J (Num 5000), ''method'' \<mapsto> J (Str ''HEAD'')]))
              ''/webhook-url/get-many'' [''method'' \<mapsto> J (Str ''GET'')])) ''maxRedirects''
       = None
   \<and> hd (snd (request (answering False (ok (Arr [])))
              (logged_in (Some [''timeout'' \<mapsto> J (Num 5000), ''method'' \<mapsto> J (Str ''HEAD'')]))
              ''/webhook-url/get-many'' [''method'' \<mapsto> J (Str ''GET'')])) ''data''
       = Some (J Undefined)
   \<and> hd (snd (request (answering False (ok (Arr [])))
              (logged_in (Some [''timeout'' \<mapsto> J (Num 5000), ''method'' \<mapsto> J (Str ''HEAD'')]))
              ''/webhook-url/get-many'' [''method'' \<mapsto> J (Str ''GET'')])) ''headers''
       = Some (J (Obj [(''Authorization'', Str ''Bearer tok1'')]))"
proof -
  let ?c = "logged_in (Some [''timeout'' \<mapsto> J (Num 5000), ''method'' \<mapsto> J (Str ''HEAD'')])"
  let ?o = "[''method'' \<mapsto> J (Str ''GET'')] :: config"
  let ?r = "snd (request (answering False (ok (Arr []))) ?c ''/webhook-url/get-many'' ?o)"
  have m: "hd ?r \<in> set ?r" by (simp add: call_defs example_defs)
  have b: "spread (fetchInit ?c) ''timeout'' = Some (J (Num 5000))"
    "spread (fetchInit ?c) ''url'' = None"
    "spread (fetchInit ?c) ''maxRedirects'' = None"
    by (simp_all add: spread_def logged_in_def)
  have t: "get_prop (loginData ?c) ''token'' = Inr (Str ''tok1'')"
    by (simp add: logged_in_def token_triple_def)
  show ?thesis
    using m b t
      request_config_layers [OF m, where k = "''timeout''" and v = "J (Num 5000)"]
      request_config_layers [OF m, where k = "''method''" and v = "J (Str ''GET'')"]
      request_config_layers [OF m, where k = "''maxRedirects''"]
    by simp
qed

text \<open>
  The claim as it was stated fails on \<^verbatim>\<open>data\<close>: \<^verbatim>\<open>getWebhooks\<close> passes the options
  \<^verbatim>\<open>{method: "GET"}\<close>, which set no \<^verbatim>\<open>data\<close>, yet the \<^verbatim>\<open>data\<close> of the base configuration
  does not reach the transport.
\<close>

theorem base_data_not_preserved_counterexample:
  "sent_fields ''data'' (getWebhooks (answering False (ok (Arr [])))
                           (logged_in (Some [''data'' \<mapsto> J (Str ''keep'')])))
     = [Some (J Undefined)]
   \<and> spread (fetchInit (logged_in (Some [''data'' \<mapsto> J (Str ''keep'')]))) ''data''
       = Some (J (Str ''keep''))"
  by (simp add: call_defs example_defs)

subsection \<open>The Session under the other operations\<close>

text \<open>
  Claim C10. Every public operation other than \<^verbatim>\<open>login\<close> and \<^verbatim>\<open>refresh\<close>, whether it
  returns or throws, leaves the client holding the Session it held before.
\<close>

theorem other_operations_keep_session:
  assumes "\<not> is_Login operation" and "operation \<noteq> Refresh"
  shows "loginData (after (perform e c operation)) = loginData c"
  using assms by (simp add: perform_after_other)

text \<open>A run: creating a webhook that the server rejects.\<close>

theorem other_operations_keep_session_witness:
  "\<not> is_Login (CreateWebhook ''https://example.org/hook'')
   \<and> CreateWebhook ''https://example.org/hook'' \<noteq> Refresh
   \<and> result (perform (answering False unauthorized) (logged_in None)
                (CreateWebhook ''https://example.org/hook''))
       = Inl (Error ''Error calling /webhook-url: Unauthorized'')
   \<and> loginData (after (perform (answering False unauthorized) (logged_in None)
                          (CreateWebhook ''https://example.org/hook'')))
       = loginData (logged_in None)"
proof -
  have "result (perform (answering False unauthorized) (logged_in None)
                (CreateWebhook ''https://example.org/hook''))
       = Inl (Error ''Error calling /webhook-url: Unauthorized'')"
    by (simp add: call_defs example_defs)
  then show ?thesis
    using other_operations_keep_session [of "CreateWebhook ''https://example.org/hook''"
          "answering False unauthorized" "logged_in None"]
    by simp
qed

end
